theory Spec2Isabelle
  imports Main
begin

section \<open>Edge middleware: route protection\<close>

text \<open>
  The repository carries two versions of the Next.js \<^verbatim>\<open>middleware\<close> function. Both read
  the session, the request's \<^verbatim>\<open>pathname\<close> and, for an authenticated request to a path that
  is not public, the \<^verbatim>\<open>role\<close> column of the caller's row in \<^verbatim>\<open>profiles\<close>. The version built on
  \<^verbatim>\<open>@supabase/ssr\<close> wraps the profile query in \<^verbatim>\<open>try/catch\<close>
  (``Si hay error al obtener el perfil, continuar sin restricciones''); the version built on
  \<^verbatim>\<open>@supabase/auth-helpers-nextjs\<close> does not.

  Strings are lists of code units; the inputs of the model are the three things the function
  reads: the pathname, the session (or \<^verbatim>\<open>null\<close>) and the outcome of the profile query.
  Which requests reach the function at all is decided by the framework from
  \<^verbatim>\<open>config.matcher\<close>; the model is of the function.
\<close>

datatype session = Session (user_id: string)

text \<open>
  Outcome of \<^verbatim>\<open>supabase.from('profiles').select('role').eq('id', session.user.id).single()\<close>:
  \<^verbatim>\<open>data\<close> is a row with its \<^verbatim>\<open>role\<close>, or \<^verbatim>\<open>data\<close> is \<^verbatim>\<open>null\<close> (no row, or the query
  reported an error), or the awaited call throws.
\<close>

datatype profile_query = Row (role_of: string) | NoRow | QueryThrows

text \<open>
  What the middleware returns: \<^verbatim>\<open>res\<close> (\<^verbatim>\<open>NextResponse.next()\<close>, the request proceeds) or
  \<^verbatim>\<open>NextResponse.redirect(url)\<close>. A redirect URL is built with \<^verbatim>\<open>new URL(path, req.url)\<close>, so it
  has the request's origin, the given absolute path and no query; \<^verbatim>\<open>searchParams.set\<close> then adds
  a parameter. The URL is kept as its path and its list of query parameters.
\<close>

datatype response = Next | Redirect string "(string \<times> string) list"

datatype middleware_exn = ProfileQueryRejected

fun startsWith :: "string \<Rightarrow> string \<Rightarrow> bool" where
  "startsWith s [] = True"
| "startsWith [] (c # cs) = False"
| "startsWith (x # xs) (c # cs) = (x = c \<and> startsWith xs cs)"

definition some :: "'a list \<Rightarrow> ('a \<Rightarrow> bool) \<Rightarrow> bool" where
  "some xs p = list_ex p xs"

definition publicRoutes :: "string list" where
  "publicRoutes = [''/login'', ''/register'', ''/auth/callback'', ''/auth/reset-password'']"

definition authRoutes :: "string list" where
  "authRoutes = [''/login'', ''/register'']"

definition adminRoutes :: "string list" where
  "adminRoutes = [''/admin'', ''/settings'', ''/users'']"

definition dentistRoutes :: "string list" where
  "dentistRoutes = [''/reports'', ''/analytics'']"

definition isPublicRoute :: "string \<Rightarrow> bool" where
  "isPublicRoute pathname = some publicRoutes (\<lambda>route. startsWith pathname route)"

definition isAuthRoute :: "string \<Rightarrow> bool" where
  "isAuthRoute pathname = some authRoutes (\<lambda>route. startsWith pathname route)"

definition isAdminRoute :: "string \<Rightarrow> bool" where
  "isAdminRoute pathname = some adminRoutes (\<lambda>route. startsWith pathname route)"

definition isDentistRoute :: "string \<Rightarrow> bool" where
  "isDentistRoute pathname = some dentistRoutes (\<lambda>route. startsWith pathname route)"

text \<open>\<^verbatim>\<open>['admin', 'dentist'].includes(profile.role)\<close>\<close>

definition includes_arr :: "string list \<Rightarrow> string \<Rightarrow> bool" where
  "includes_arr xs x = (x \<in> set xs)"

text \<open>The \<^verbatim>\<open>@supabase/ssr\<close> version: an exception of the profile query is caught and logged.\<close>

definition middleware :: "string \<Rightarrow> session option \<Rightarrow> profile_query \<Rightarrow> response" where
  "middleware pathname session profile_q =
     (if isAuthRoute pathname \<and> session \<noteq> None then Redirect ''/dashboard'' []
      else if pathname = ''/'' \<and> session \<noteq> None then Redirect ''/dashboard'' []
      else if \<not> isPublicRoute pathname \<and> session = None
        then Redirect ''/login'' [(''redirectTo'', pathname)]
      else if session \<noteq> None \<and> \<not> isPublicRoute pathname then
        (case profile_q of
           Row role \<Rightarrow>
             if isAdminRoute pathname \<and> role \<noteq> ''admin'' then Redirect ''/dashboard'' []
             else if isDentistRoute pathname \<and> \<not> includes_arr [''admin'', ''dentist''] role
               then Redirect ''/dashboard'' []
             else Next
         | NoRow \<Rightarrow> Next
         | QueryThrows \<Rightarrow> Next)
      else Next)"

text \<open>
  The \<^verbatim>\<open>@supabase/auth-helpers-nextjs\<close> version: the same decisions, but nothing catches an
  exception of the profile query, so the function's promise rejects.
\<close>

definition middleware_auth_helpers ::
  "string \<Rightarrow> session option \<Rightarrow> profile_query \<Rightarrow> middleware_exn + response" where
  "middleware_auth_helpers pathname session profile_q =
     (if isAuthRoute pathname \<and> session \<noteq> None then Inr (Redirect ''/dashboard'' [])
      else if pathname = ''/'' \<and> session \<noteq> None then Inr (Redirect ''/dashboard'' [])
      else if \<not> isPublicRoute pathname \<and> session = None
        then Inr (Redirect ''/login'' [(''redirectTo'', pathname)])
      else if session \<noteq> None \<and> \<not> isPublicRoute pathname then
        (case profile_q of
           Row role \<Rightarrow>
             if isAdminRoute pathname \<and> role \<noteq> ''admin'' then Inr (Redirect ''/dashboard'' [])
             else if isDentistRoute pathname \<and> \<not> includes_arr [''admin'', ''dentist''] role
               then Inr (Redirect ''/dashboard'' [])
             else Inr Next
         | NoRow \<Rightarrow> Inr Next
         | QueryThrows \<Rightarrow> Inl ProfileQueryRejected)
      else Inr Next)"

section \<open>Client: validation helpers\<close>

text \<open>
  JavaScript strings are sequences of code units. The model keeps the code units below 256,
  one \<^typ>\<open>char\<close> each, which covers every literal of the source (the accented letters of
  the Spanish messages are written with their code, e.g. \<^verbatim>\<open>CHR 0xE1\<close>). In that range the
  regular-expression class \<^verbatim>\<open>\s\<close> and \<^verbatim>\<open>String.prototype.trim\<close> recognise the same
  seven code units.
\<close>

definition isSpace :: "char \<Rightarrow> bool" where
  "isSpace c = (c \<in> set [CHR 0x09, CHR 0x0A, CHR 0x0B, CHR 0x0C, CHR 0x0D, CHR 0x20, CHR 0xA0])"

definition isLower :: "char \<Rightarrow> bool" where
  "isLower c = (c \<in> set ''abcdefghijklmnopqrstuvwxyz'')"

definition isUpper :: "char \<Rightarrow> bool" where
  "isUpper c = (c \<in> set ''ABCDEFGHIJKLMNOPQRSTUVWXYZ'')"

definition isDigit :: "char \<Rightarrow> bool" where
  "isDigit c = (c \<in> set ''0123456789'')"

text \<open>The class \<^verbatim>\<open>[^\s@]\<close>.\<close>

definition emailChar :: "char \<Rightarrow> bool" where
  "emailChar c = (\<not> isSpace c \<and> c \<noteq> CHR ''@'')"

text \<open>
  \<^verbatim>\<open>/^[^\s@]+@[^\s@]+\.[^\s@]+$/.test(email)\<close>: a non-empty run of \<^verbatim>\<open>[^\s@]\<close>, then
  \<^verbatim>\<open>@\<close>, then to the end of the string only \<^verbatim>\<open>[^\s@]\<close>, with a dot that is neither the
  first nor the last of them.
\<close>

definition isValidEmail :: "string \<Rightarrow> bool" where
  "isValidEmail email =
     (takeWhile emailChar email \<noteq> [] \<and>
      (case dropWhile emailChar email of
         [] \<Rightarrow> False
       | c # domain \<Rightarrow>
           c = CHR ''@'' \<and> list_all emailChar domain \<and> CHR ''.'' \<in> set (butlast (tl domain))))"

text \<open>The class \<^verbatim>\<open>[a-zA-Z\d@$!%*?&]\<close>.\<close>

definition passwordChar :: "char \<Rightarrow> bool" where
  "passwordChar c = (isLower c \<or> isUpper c \<or> isDigit c \<or> c \<in> set ''@$!%*?&'')"

text \<open>\<^verbatim>\<open>/^(?=.*[a-z])(?=.*[A-Z])(?=.*\d)[a-zA-Z\d@$!%*?&]{8,}$/.test(password)\<close>\<close>

definition isValidPassword :: "string \<Rightarrow> bool" where
  "isValidPassword password =
     (list_ex isLower password \<and> list_ex isUpper password \<and> list_ex isDigit password \<and>
      list_all passwordChar password \<and> 8 \<le> length password)"

definition trim :: "string \<Rightarrow> string" where
  "trim s = rev (dropWhile isSpace (rev (dropWhile isSpace s)))"

definition errorMessages :: "(string \<times> string) list" where
  "errorMessages =
     [(''Invalid login credentials'',
         ''Credenciales de inicio de sesi'' @ [CHR 0xF3] @ ''n inv'' @ [CHR 0xE1] @ ''lidas''),
      (''Email not confirmed'',
         ''Email no confirmado. Por favor, verifica tu correo electr'' @ [CHR 0xF3] @ ''nico''),
      (''User already registered'', ''El usuario ya est'' @ [CHR 0xE1] @ '' registrado''),
      (''Password should be at least 6 characters'',
         ''La contrase'' @ [CHR 0xF1] @ ''a debe tener al menos 6 caracteres''),
      (''Unable to validate email address'',
         ''No se pudo validar la direcci'' @ [CHR 0xF3] @ ''n de email''),
      (''Signup is disabled'', ''El registro est'' @ [CHR 0xE1] @ '' deshabilitado''),
      (''Too many requests'',
         ''Demasiadas solicitudes. Intenta de nuevo m'' @ [CHR 0xE1] @ ''s tarde'')]"

text \<open>
  \<^verbatim>\<open>errorMessages[error] || 'Ha ocurrido un error. Intenta de nuevo'\<close>. The table is an
  object literal, so the lookup of a key that is not its own goes on to \<^verbatim>\<open>Object.prototype\<close>:
  for the twelve names below it finds a member there (a function, or for \<^verbatim>\<open>__proto__\<close> the
  prototype object), which is truthy and is what the function then returns, although its
  declared type is \<^verbatim>\<open>string\<close>. A value of the function is therefore a string or the
  inherited member of that name.
\<close>

datatype js_value = Str string | Inherited string

definition objectPrototypeKeys :: "string list" where
  "objectPrototypeKeys =
     [''constructor'', ''hasOwnProperty'', ''isPrototypeOf'', ''propertyIsEnumerable'',
      ''toLocaleString'', ''toString'', ''valueOf'', ''__proto__'', ''__defineGetter__'',
      ''__defineSetter__'', ''__lookupGetter__'', ''__lookupSetter__'']"

definition formatAuthError :: "string \<Rightarrow> js_value" where
  "formatAuthError error_message =
     (case map_of errorMessages error_message of
        Some m \<Rightarrow> if m \<noteq> [] then Str m else Str ''Ha ocurrido un error. Intenta de nuevo''
      | None \<Rightarrow>
          if error_message \<in> set objectPrototypeKeys then Inherited error_message
          else Str ''Ha ocurrido un error. Intenta de nuevo'')"

section \<open>Client: the authentication service\<close>

record UserProfile =
  p_id :: string
  p_clinic_id :: string
  p_full_name :: string
  p_role :: string
  p_created_at :: string

record AuthUser =
  u_id :: string
  u_email :: string
  u_role :: string
  u_profile :: UserProfile
  isAuthenticated :: bool

record LoginCredentials =
  email :: string
  password :: string

record RegisterData =
  r_email :: string
  r_password :: string
  r_full_name :: string
  r_role :: string
  r_clinic_id :: string

text \<open>The user object of the identity provider (\<^verbatim>\<open>data.user\<close>), of which the code reads
  \<^verbatim>\<open>id\<close> and \<^verbatim>\<open>email\<close>.\<close>

record IdpUser =
  idp_id :: string
  idp_email :: string

text \<open>
  An awaited call to the identity provider or to the database either resolves to a value or
  rejects (the \<^verbatim>\<open>await\<close> throws). The resolved values are the fields the code
  destructures: \<^verbatim>\<open>{ data: { user }, error }\<close> of the auth calls is the user (or \<^verbatim>\<open>null\<close>) and
  the error's message (or \<^verbatim>\<open>null\<close>); \<^verbatim>\<open>{ data, error }\<close> of the profile query is the row
  and the error; \<^verbatim>\<open>{ error }\<close> of \<^verbatim>\<open>insert\<close> and \<^verbatim>\<open>signOut\<close> is the error.
\<close>

datatype 'a awaited = Resolves 'a | Rejects

type_synonym auth_result = "(IdpUser option \<times> string option) awaited"

type_synonym profiles_select = "string \<Rightarrow> (UserProfile option \<times> string option) awaited"

text \<open>The object \<^verbatim>\<open>{ user, error }\<close> that the service's operations return.\<close>

type_synonym service_result = "AuthUser option \<times> js_value option"

text \<open>
  Truthiness of the \<^verbatim>\<open>error\<close> of such a result: \<^verbatim>\<open>null\<close> and the empty string are falsy, a
  non-empty string and an inherited member are truthy.
\<close>

definition truthy :: "js_value option \<Rightarrow> bool" where
  "truthy e =
     (case e of None \<Rightarrow> False | Some (Str m) \<Rightarrow> m \<noteq> [] | Some (Inherited k) \<Rightarrow> True)"

definition internalError :: string where
  "internalError = ''Error interno del servidor''"

definition getUserProfile :: "profiles_select \<Rightarrow> string \<Rightarrow> UserProfile option" where
  "getUserProfile profiles userId =
     (case profiles userId of
        Rejects \<Rightarrow> None
      | Resolves (data, err) \<Rightarrow> if err \<noteq> None \<or> data = None then None else data)"

definition mkAuthUser :: "IdpUser \<Rightarrow> UserProfile \<Rightarrow> AuthUser" where
  "mkAuthUser u profile =
     \<lparr>u_id = idp_id u, u_email = idp_email u, u_role = p_role profile, u_profile = profile,
      isAuthenticated = True\<rparr>"

text \<open>
  \<^verbatim>\<open>AuthService.login\<close>. \<^verbatim>\<open>signIn\<close> is what \<^verbatim>\<open>signInWithPassword\<close> gives; it is consulted only
  when both local validations pass, which is when the request is sent.
\<close>

definition AuthService_login ::
  "LoginCredentials \<Rightarrow> auth_result \<Rightarrow> profiles_select \<Rightarrow> service_result" where
  "AuthService_login credentials signIn profiles =
     (if \<not> isValidEmail (email credentials) then (None, Some (Str (''Email inv'' @ [CHR 0xE1] @ ''lido'')))
      else if password credentials = [] \<or> length (password credentials) < 6
        then (None, Some (Str (''La contrase'' @ [CHR 0xF1] @ ''a debe tener al menos 6 caracteres'')))
      else
        (case signIn of
           Rejects \<Rightarrow> (None, Some (Str internalError))
         | Resolves (data_user, err) \<Rightarrow>
             (case err of
                Some message \<Rightarrow> (None, Some (formatAuthError message))
              | None \<Rightarrow>
                  (case data_user of
                     None \<Rightarrow> (None, Some (Str ''Usuario no encontrado''))
                   | Some u \<Rightarrow>
                       (case getUserProfile profiles (idp_id u) of
                          None \<Rightarrow> (None, Some (Str ''Perfil de usuario no encontrado''))
                        | Some profile \<Rightarrow> (Some (mkAuthUser u profile), None))))))"

text \<open>
  \<^verbatim>\<open>AuthService.register\<close>. \<^verbatim>\<open>signUp\<close>, \<^verbatim>\<open>insertProfile\<close> and \<^verbatim>\<open>deleteUser\<close> are the outcomes of
  \<^verbatim>\<open>auth.signUp\<close>, of the \<^verbatim>\<open>insert\<close> into \<^verbatim>\<open>profiles\<close> and of \<^verbatim>\<open>auth.admin.deleteUser\<close>
  (whose resolved value the code ignores).
\<close>

definition AuthService_register ::
  "RegisterData \<Rightarrow> auth_result \<Rightarrow> string option awaited \<Rightarrow> unit awaited \<Rightarrow> profiles_select
     \<Rightarrow> service_result" where
  "AuthService_register data signUp insertProfile deleteUser profiles =
     (if \<not> isValidEmail (r_email data) then (None, Some (Str (''Email inv'' @ [CHR 0xE1] @ ''lido'')))
      else if \<not> isValidPassword (r_password data)
        then (None, Some (Str (''La contrase'' @ [CHR 0xF1] @
                ''a debe tener al menos 8 caracteres, una may'' @ [CHR 0xFA] @ ''scula, una min'' @
                [CHR 0xFA] @ ''scula y un n'' @ [CHR 0xFA] @ ''mero'')))
      else if r_full_name data = [] \<or> length (trim (r_full_name data)) < 2
        then (None, Some (Str ''El nombre completo es requerido''))
      else if r_clinic_id data = []
        then (None, Some (Str (''ID de cl'' @ [CHR 0xED] @ ''nica es requerido'')))
      else
        (case signUp of
           Rejects \<Rightarrow> (None, Some (Str internalError))
         | Resolves (data_user, authError) \<Rightarrow>
             (case authError of
                Some message \<Rightarrow> (None, Some (formatAuthError message))
              | None \<Rightarrow>
                  (case data_user of
                     None \<Rightarrow> (None, Some (Str ''Error al crear usuario''))
                   | Some u \<Rightarrow>
                       (case insertProfile of
                          Rejects \<Rightarrow> (None, Some (Str internalError))
                        | Resolves (Some profileError) \<Rightarrow>
                            (case deleteUser of
                               Rejects \<Rightarrow> (None, Some (Str internalError))
                             | Resolves _ \<Rightarrow> (None, Some (Str ''Error al crear perfil de usuario'')))
                        | Resolves None \<Rightarrow>
                            (case getUserProfile profiles (idp_id u) of
                               None \<Rightarrow> (None, Some (Str ''Error al obtener perfil de usuario''))
                             | Some profile \<Rightarrow> (Some (mkAuthUser u profile), None)))))))"

text \<open>\<^verbatim>\<open>AuthService.logout\<close>: \<^verbatim>\<open>signOut\<close> is the outcome of \<^verbatim>\<open>auth.signOut()\<close>.\<close>

definition AuthService_logout :: "string option awaited \<Rightarrow> js_value option" where
  "AuthService_logout signOut =
     (case signOut of
        Rejects \<Rightarrow> Some (Str internalError)
      | Resolves (Some message) \<Rightarrow> Some (formatAuthError message)
      | Resolves None \<Rightarrow> None)"

text \<open>\<^verbatim>\<open>AuthService.getCurrentUser\<close>: \<^verbatim>\<open>getUser\<close> is the \<^verbatim>\<open>data.user\<close> of \<^verbatim>\<open>auth.getUser()\<close>.\<close>

definition getCurrentUser :: "IdpUser option awaited \<Rightarrow> profiles_select \<Rightarrow> AuthUser option" where
  "getCurrentUser getUser profiles =
     (case getUser of
        Rejects \<Rightarrow> None
      | Resolves None \<Rightarrow> None
      | Resolves (Some u) \<Rightarrow>
          (case getUserProfile profiles (idp_id u) of
             None \<Rightarrow> None
           | Some profile \<Rightarrow> Some (mkAuthUser u profile)))"

section \<open>Client: the authentication provider\<close>

text \<open>
  The React state of \<^verbatim>\<open>AuthProvider\<close>: four \<^verbatim>\<open>useState\<close> cells. Each operation is an
  \<^verbatim>\<open>async\<close> function that sets cells in sequence; the model returns the cells as they are
  when the operation has run to its end. Every operation of \<^verbatim>\<open>AuthService\<close> catches its own
  exceptions, so the \<^verbatim>\<open>catch\<close> blocks of the provider are never entered.
\<close>

text \<open>
  What the \<^verbatim>\<open>error\<close> cell holds. \<^verbatim>\<open>setError\<close> is the setter React returns from
  \<^verbatim>\<open>useState\<close>: given \<^verbatim>\<open>null\<close> or a string it stores it. Given a value that is not a string
  (an inherited member, which \<^verbatim>\<open>formatAuthError\<close> can return) it is React, not the
  repository's code, that decides what the cell holds next (it calls a function with the
  previous state); that content is kept symbolic, as the member's name and the previous
  content.
\<close>

datatype error_cell = Null | Message string | ReactNext string error_cell

definition setError :: "js_value option \<Rightarrow> error_cell \<Rightarrow> error_cell" where
  "setError v prev =
     (case v of
        None \<Rightarrow> Null
      | Some (Str m) \<Rightarrow> Message m
      | Some (Inherited k) \<Rightarrow> ReactNext k prev)"

record AuthState =
  user :: "AuthUser option"
  loading :: bool
  error :: error_cell
  initialized :: bool

definition initialState :: AuthState where
  "initialState = \<lparr>user = None, loading = True, error = Null, initialized = False\<rparr>"

text \<open>\<^verbatim>\<open>initializeAuth\<close>, run by the mount effect when \<^verbatim>\<open>window\<close> is defined.\<close>

definition initializeAuth :: "AuthState \<Rightarrow> IdpUser option awaited \<Rightarrow> profiles_select \<Rightarrow> AuthState" where
  "initializeAuth s getUser profiles =
     (let s1 = s\<lparr>loading := True\<rparr>;
          currentUser = getCurrentUser getUser profiles;
          s2 = s1\<lparr>user := currentUser\<rparr>
      in s2\<lparr>loading := False, initialized := True\<rparr>)"

definition login ::
  "AuthState \<Rightarrow> LoginCredentials \<Rightarrow> auth_result \<Rightarrow> profiles_select \<Rightarrow> AuthState" where
  "login s credentials signIn profiles =
     (let s1 = s\<lparr>loading := True, error := setError None (error s)\<rparr>;
          (authUser, authError) = AuthService_login credentials signIn profiles;
          s2 = (if truthy authError then s1\<lparr>error := setError authError (error s1)\<rparr>
                else case authUser of Some u \<Rightarrow> s1\<lparr>user := Some u\<rparr> | None \<Rightarrow> s1)
      in s2\<lparr>loading := False\<rparr>)"

definition register ::
  "AuthState \<Rightarrow> RegisterData \<Rightarrow> auth_result \<Rightarrow> string option awaited \<Rightarrow> unit awaited
     \<Rightarrow> profiles_select \<Rightarrow> AuthState" where
  "register s data signUp insertProfile deleteUser profiles =
     (let s1 = s\<lparr>loading := True, error := setError None (error s)\<rparr>;
          (authUser, authError) = AuthService_register data signUp insertProfile deleteUser profiles;
          s2 = (if truthy authError then s1\<lparr>error := setError authError (error s1)\<rparr>
                else case authUser of Some u \<Rightarrow> s1\<lparr>user := Some u\<rparr> | None \<Rightarrow> s1)
      in s2\<lparr>loading := False\<rparr>)"

definition logout :: "AuthState \<Rightarrow> string option awaited \<Rightarrow> AuthState" where
  "logout s signOut =
     (let s1 = s\<lparr>loading := True, error := setError None (error s)\<rparr>;
          authError = AuthService_logout signOut;
          s2 = (if truthy authError then s1\<lparr>error := setError authError (error s1)\<rparr>
                else s1\<lparr>user := None\<rparr>)
      in s2\<lparr>loading := False\<rparr>)"

definition clearError :: "AuthState \<Rightarrow> AuthState" where
  "clearError s = s\<lparr>error := setError None (error s)\<rparr>"

subsection \<open>\<^verbatim>\<open>login\<close> cut at its network request\<close>

text \<open>
  An \<^verbatim>\<open>async\<close> function runs until it awaits something that is not yet there, and other
  calls can run before it resumes. For \<^verbatim>\<open>login\<close> that point is
  \<^verbatim>\<open>await supabase.auth.signInWithPassword(...)\<close>, reached when the two local checks of
  \<^verbatim>\<open>AuthService.login\<close> pass. A client is the provider's state together with the credential
  exchanges that have been sent and not yet answered. \<^verbatim>\<open>login_call\<close> is \<^verbatim>\<open>login\<close> up to that
  point (or to its end, when the service returns without sending); \<^verbatim>\<open>login_settle\<close> is the
  rest of it, when the answer to the oldest exchange arrives.
\<close>

record Client =
  auth :: AuthState
  pending :: "LoginCredentials list"

definition sendsSignIn :: "LoginCredentials \<Rightarrow> bool" where
  "sendsSignIn credentials =
     (\<not> (\<not> isValidEmail (email credentials)) \<and>
      \<not> (password credentials = [] \<or> length (password credentials) < 6))"

definition login_call :: "Client \<Rightarrow> LoginCredentials \<Rightarrow> Client" where
  "login_call c credentials =
     (if sendsSignIn credentials
      then c\<lparr>auth := (auth c)\<lparr>loading := True, error := setError None (error (auth c))\<rparr>,
             pending := pending c @ [credentials]\<rparr>
      else c\<lparr>auth := login (auth c) credentials Rejects (\<lambda>userId. Rejects)\<rparr>)"

definition login_settle :: "Client \<Rightarrow> auth_result \<Rightarrow> profiles_select \<Rightarrow> Client" where
  "login_settle c signIn profiles =
     (case pending c of
        [] \<Rightarrow> c
      | credentials # rest \<Rightarrow>
          (let (authUser, authError) = AuthService_login credentials signIn profiles;
               s1 = auth c;
               s2 = (if truthy authError then s1\<lparr>error := setError authError (error s1)\<rparr>
                     else case authUser of Some u \<Rightarrow> s1\<lparr>user := Some u\<rparr> | None \<Rightarrow> s1)
           in c\<lparr>auth := s2\<lparr>loading := False\<rparr>, pending := rest\<rparr>))"

section \<open>Client: the route guard\<close>

text \<open>
  \<^verbatim>\<open>AuthGuard\<close> renders its children or a spinner, and may call \<^verbatim>\<open>router.push\<close>. The model
  returns what is rendered, with the route pushed, if any. \<^verbatim>\<open>user\<close> and \<^verbatim>\<open>loading\<close> come from
  the provider, \<^verbatim>\<open>isClient\<close> is the component's own cell, set by its mount effect.
\<close>

datatype guard_view = Spinner "string option" | Children

definition AuthGuard ::
  "bool \<Rightarrow> string list \<Rightarrow> AuthUser option \<Rightarrow> bool \<Rightarrow> bool \<Rightarrow> guard_view" where
  "AuthGuard requireAuth allowedRoles usr isLoading isClient =
     (if \<not> isClient \<or> isLoading then Spinner None
      else if requireAuth \<and> usr = None
        then Spinner (if isClient then Some ''/login'' else None)
      else if 0 < length allowedRoles \<and>
              (case usr of None \<Rightarrow> False | Some u \<Rightarrow> \<not> includes_arr allowedRoles (u_role u))
        then Spinner (if isClient then Some ''/dashboard'' else None)
      else if \<not> requireAuth \<and> usr \<noteq> None
        then Spinner (if isClient then Some ''/dashboard'' else None)
      else Children)"

text \<open>The pages that wrap their content in the guard.\<close>

definition LoginPage :: "AuthUser option \<Rightarrow> bool \<Rightarrow> bool \<Rightarrow> guard_view" where
  "LoginPage usr isLoading isClient = AuthGuard False [] usr isLoading isClient"

definition RegisterPage :: "AuthUser option \<Rightarrow> bool \<Rightarrow> bool \<Rightarrow> guard_view" where
  "RegisterPage usr isLoading isClient = AuthGuard False [] usr isLoading isClient"

definition DashboardPage :: "AuthUser option \<Rightarrow> bool \<Rightarrow> bool \<Rightarrow> guard_view" where
  "DashboardPage usr isLoading isClient = AuthGuard True [] usr isLoading isClient"

section \<open>The access decision of the specification\<close>

text \<open>
  The specification speaks of one decision with three outcomes. These two functions read
  that decision off what the middleware returns and off what the guard renders; a spinner
  without a pushed route is no decision yet.
\<close>

datatype AccessDecision = Allow | RedirectToLogin | RedirectToDashboard

definition middleware_decision :: "response \<Rightarrow> AccessDecision option" where
  "middleware_decision r =
     (case r of
        Next \<Rightarrow> Some Allow
      | Redirect path params \<Rightarrow>
          if path = ''/login'' then Some RedirectToLogin
          else if path = ''/dashboard'' then Some RedirectToDashboard
          else None)"

definition guard_decision :: "guard_view \<Rightarrow> AccessDecision option" where
  "guard_decision v =
     (case v of
        Children \<Rightarrow> Some Allow
      | Spinner None \<Rightarrow> None
      | Spinner (Some path) \<Rightarrow>
          if path = ''/login'' then Some RedirectToLogin
          else if path = ''/dashboard'' then Some RedirectToDashboard
          else None)"

section \<open>Example values\<close>

definition anaIdp :: IdpUser where
  "anaIdp = \<lparr>idp_id = ''u1'', idp_email = ''ana@clinic.io''\<rparr>"

definition anaProfile :: UserProfile where
  "anaProfile =
     \<lparr>p_id = ''u1'', p_clinic_id = ''c1'', p_full_name = ''Ana'', p_role = ''dentist'',
      p_created_at = ''2024-01-01''\<rparr>"

definition ana :: AuthUser where
  "ana = mkAuthUser anaIdp anaProfile"


definition anaData :: RegisterData where
  "anaData =
     \<lparr>r_email = ''ana@clinic.io'', r_password = ''Secreto123'', r_full_name = '' Ana '',
      r_role = ''dentist'', r_clinic_id = ''c1''\<rparr>"

definition signedIn :: AuthState where
  "signedIn = \<lparr>user = Some ana, loading = False, error = Null, initialized = True\<rparr>"



section \<open>Route tables\<close>

lemma startsWith_append: "startsWith s r \<longleftrightarrow> (\<exists>t. s = r @ t)"
  by (induction s r rule: startsWith.induct) auto

lemma isAuthRoute_cases:
  "isAuthRoute p \<longleftrightarrow> (\<exists>t. p = ''/login'' @ t) \<or> (\<exists>t. p = ''/register'' @ t)"
  by (simp add: isAuthRoute_def some_def authRoutes_def startsWith_append)

lemma isAdminRoute_cases:
  "isAdminRoute p \<longleftrightarrow>
     (\<exists>t. p = ''/admin'' @ t) \<or> (\<exists>t. p = ''/settings'' @ t) \<or> (\<exists>t. p = ''/users'' @ t)"
  by (simp add: isAdminRoute_def some_def adminRoutes_def startsWith_append)

lemma isDentistRoute_cases:
  "isDentistRoute p \<longleftrightarrow> (\<exists>t. p = ''/reports'' @ t) \<or> (\<exists>t. p = ''/analytics'' @ t)"
  by (simp add: isDentistRoute_def some_def dentistRoutes_def startsWith_append)

lemma auth_is_public: "isAuthRoute p \<Longrightarrow> isPublicRoute p"
  by (auto simp: isAuthRoute_def isPublicRoute_def some_def authRoutes_def publicRoutes_def)

lemma admin_not_public: "isAdminRoute p \<Longrightarrow> \<not> isPublicRoute p"
  by (auto simp: isAdminRoute_cases isPublicRoute_def some_def publicRoutes_def)

lemma admin_not_auth: "isAdminRoute p \<Longrightarrow> \<not> isAuthRoute p"
  using auth_is_public admin_not_public by blast

lemma admin_not_root: "isAdminRoute p \<Longrightarrow> p \<noteq> ''/''"
  by (auto simp: isAdminRoute_cases)

lemma admin_not_dentist: "isAdminRoute p \<Longrightarrow> \<not> isDentistRoute p"
  by (auto simp: isAdminRoute_cases isDentistRoute_def some_def dentistRoutes_def)

lemma dentist_not_public: "isDentistRoute p \<Longrightarrow> \<not> isPublicRoute p"
  by (auto simp: isDentistRoute_cases isPublicRoute_def some_def publicRoutes_def)

lemma dentist_not_auth: "isDentistRoute p \<Longrightarrow> \<not> isAuthRoute p"
  using auth_is_public dentist_not_public by blast

lemma dentist_not_root: "isDentistRoute p \<Longrightarrow> p \<noteq> ''/''"
  by (auto simp: isDentistRoute_cases)

lemma dentist_not_admin: "isDentistRoute p \<Longrightarrow> \<not> isAdminRoute p"
  using admin_not_dentist by blast

lemma auth_not_root: "isAuthRoute p \<Longrightarrow> p \<noteq> ''/''"
  by (auto simp: isAuthRoute_cases)

lemma middleware_no_profile:
  "\<not> isPublicRoute p \<Longrightarrow> p \<noteq> ''/'' \<Longrightarrow> middleware p (Some s) NoRow = Next"
  using auth_is_public [of p] by (auto simp add: middleware_def)

lemma same_decisions:
  "q \<noteq> QueryThrows \<Longrightarrow> middleware_auth_helpers p session q = Inr (middleware p session q)"
  by (cases q) (auto simp add: middleware_def middleware_auth_helpers_def)

section \<open>Service results\<close>

lemma formatAuthError_truthy: "truthy (Some (formatAuthError m))"
  by (simp add: formatAuthError_def truthy_def split: option.split)

lemma AuthService_logout_truthy: "truthy (AuthService_logout r) \<longleftrightarrow> r \<noteq> Resolves None"
proof (cases r)
  case (Resolves e)
  then show ?thesis
    using formatAuthError_truthy by (cases e) (simp_all add: AuthService_logout_def truthy_def)
next
  case Rejects
  then show ?thesis
    by (simp add: AuthService_logout_def truthy_def internalError_def)
qed

lemma register_profile_failure:
  assumes "isValidEmail (r_email d)" and "isValidPassword (r_password d)"
    and "r_full_name d \<noteq> []" and "2 \<le> length (trim (r_full_name d))" and "r_clinic_id d \<noteq> []"
    and "signUp = Resolves (Some u, None)"
    and "insertProfile \<noteq> Resolves None"
  shows "\<exists>m. AuthService_register d signUp insertProfile deleteUser profiles
               = (None, Some (Str m)) \<and> m \<noteq> []"
  using assms
  by (auto simp: AuthService_register_def internalError_def split: awaited.splits option.splits)

text \<open>
  A call whose credentials fail a local check never reaches the identity provider, so what
  the provider would have answered does not matter; and the two halves of \<^verbatim>\<open>login\<close> put
  together are \<^verbatim>\<open>login\<close>.
\<close>

lemma login_without_request:
  "\<not> sendsSignIn credentials \<Longrightarrow>
     login s credentials signIn profiles = login s credentials Rejects (\<lambda>userId. Rejects)"
  by (auto simp: login_def sendsSignIn_def AuthService_login_def)

lemma login_split:
  "auth (login_settle (login_call \<lparr>auth = s, pending = []\<rparr> credentials) signIn profiles)
     = login s credentials signIn profiles"
  by (auto simp: login_call_def login_settle_def login_def sendsSignIn_def AuthService_login_def
      Let_def split: prod.splits)

section \<open>The middleware's decisions\<close>

text \<open>
  C1, as the code has it. With a session, on a path that is not public and is not \<^verbatim>\<open>/\<close>,
  the middleware lets the request through when the profile query gives no row, and the
  \<^verbatim>\<open>try/catch\<close> version also when the query throws. The paths under the admin and the
  role-restricted prefixes are among these paths: the role checks run only on a row that was
  found.
\<close>

theorem missing_profile_allows:
  "isAdminRoute p \<or> isDentistRoute p \<or> (\<not> isPublicRoute p \<and> p \<noteq> ''/'') \<Longrightarrow>
     middleware p (Some s) NoRow = Next \<and>
     middleware p (Some s) QueryThrows = Next \<and>
     middleware_auth_helpers p (Some s) NoRow = Inr Next"
  using auth_is_public [of p] admin_not_public [of p] admin_not_root [of p]
    dentist_not_public [of p] dentist_not_root [of p]
  by (auto simp add: middleware_def middleware_auth_helpers_def)

theorem missing_profile_allows_witness:
  "isDentistRoute ''/reports'' \<and>
     middleware ''/reports'' (Some (Session ''u1'')) NoRow = Next \<and>
     middleware ''/reports'' (Some (Session ''u1'')) QueryThrows = Next \<and>
     middleware_auth_helpers ''/reports'' (Some (Session ''u1'')) NoRow = Inr Next"
  using missing_profile_allows [of "''/reports''" "Session ''u1''"]
  by (simp add: isDentistRoute_def some_def dentistRoutes_def)

text \<open>
  The claim as stated fails: an authenticated request to \<^verbatim>\<open>/admin\<close> whose profile query
  gives no row is let through by both versions.
\<close>

theorem missing_profile_counterexample:
  "isAdminRoute ''/admin'' \<and>
     middleware ''/admin'' (Some (Session ''u1'')) NoRow = Next \<and>
     middleware_auth_helpers ''/admin'' (Some (Session ''u1'')) NoRow = Inr Next"
  by (simp add: middleware_def middleware_auth_helpers_def isAdminRoute_def isAuthRoute_def
      isPublicRoute_def some_def adminRoutes_def authRoutes_def publicRoutes_def)

text \<open>
  C2, as the code has it. On a path under \<^verbatim>\<open>/admin\<close>, \<^verbatim>\<open>/settings\<close> or \<^verbatim>\<open>/users\<close> the request
  is let through exactly when there is a session and the profile query gives either the role
  \<^verbatim>\<open>admin\<close> or no profile at all; without a session the answer is the redirect to
  \<^verbatim>\<open>/login\<close> with \<^verbatim>\<open>redirectTo\<close> set to the path, and with a session and a profile of another
  role it is the redirect to \<^verbatim>\<open>/dashboard\<close>.
\<close>

theorem admin_routes:
  "isAdminRoute p \<Longrightarrow>
     (middleware p session q = Next \<longleftrightarrow>
        session \<noteq> None \<and> (q = Row ''admin'' \<or> q = NoRow \<or> q = QueryThrows)) \<and>
     (middleware_auth_helpers p session q = Inr Next \<longleftrightarrow>
        session \<noteq> None \<and> (q = Row ''admin'' \<or> q = NoRow)) \<and>
     (session = None \<longrightarrow>
        middleware p session q = Redirect ''/login'' [(''redirectTo'', p)] \<and>
        middleware_auth_helpers p session q = Inr (Redirect ''/login'' [(''redirectTo'', p)])) \<and>
     (session \<noteq> None \<and> q = Row role \<and> role \<noteq> ''admin'' \<longrightarrow>
        middleware p session q = Redirect ''/dashboard'' [] \<and>
        middleware_auth_helpers p session q = Inr (Redirect ''/dashboard'' []))"
  by (cases q)
    (auto simp add: middleware_def middleware_auth_helpers_def admin_not_public admin_not_auth
      admin_not_root admin_not_dentist)

theorem admin_routes_witness:
  "isAdminRoute ''/users'' \<and>
     middleware ''/users'' (Some (Session ''u1'')) (Row ''admin'') = Next \<and>
     middleware ''/users'' None (Row ''admin'') = Redirect ''/login'' [(''redirectTo'', ''/users'')] \<and>
     middleware ''/users'' (Some (Session ''u1'')) (Row ''dentist'') = Redirect ''/dashboard'' []"
  using admin_routes [of "''/users''" "Some (Session ''u1'')" "Row ''admin''" "''admin''"]
    admin_routes [of "''/users''" None "Row ''admin''" "''admin''"]
    admin_routes [of "''/users''" "Some (Session ''u1'')" "Row ''dentist''" "''dentist''"]
  by (simp add: isAdminRoute_def some_def adminRoutes_def)

text \<open>
  The claim as stated fails in its ``only if'': with a session and no profile row,
  \<^verbatim>\<open>/settings\<close> is let through although no role \<^verbatim>\<open>admin\<close> was resolved.
\<close>

theorem admin_routes_counterexample:
  "isAdminRoute ''/settings'' \<and>
     middleware ''/settings'' (Some (Session ''u1'')) NoRow = Next \<and>
     middleware_auth_helpers ''/settings'' (Some (Session ''u1'')) NoRow = Inr Next"
  by (simp add: middleware_def middleware_auth_helpers_def isAdminRoute_def isAuthRoute_def
      isPublicRoute_def some_def adminRoutes_def authRoutes_def publicRoutes_def)

text \<open>
  C3. On every path that is not public, a request without a session is redirected to
  \<^verbatim>\<open>/login\<close> with the query parameter \<^verbatim>\<open>redirectTo\<close> set to the request's path.
\<close>

theorem unauthenticated_redirect:
  "\<not> isPublicRoute p \<Longrightarrow>
     middleware p None q = Redirect ''/login'' [(''redirectTo'', p)] \<and>
     middleware_auth_helpers p None q = Inr (Redirect ''/login'' [(''redirectTo'', p)])"
  using auth_is_public [of p] by (auto simp add: middleware_def middleware_auth_helpers_def)

theorem unauthenticated_redirect_witness:
  "\<not> isPublicRoute ''/admin'' \<and>
     middleware ''/admin'' None NoRow = Redirect ''/login'' [(''redirectTo'', ''/admin'')] \<and>
     middleware_auth_helpers ''/admin'' None NoRow
       = Inr (Redirect ''/login'' [(''redirectTo'', ''/admin'')])"
  using unauthenticated_redirect [of "''/admin''" NoRow]
  by (simp add: isPublicRoute_def some_def publicRoutes_def)

text \<open>
  C4. On every path under \<^verbatim>\<open>/reports\<close> or \<^verbatim>\<open>/analytics\<close>, with a session and a profile row,
  the role \<^verbatim>\<open>receptionist\<close> is redirected to \<^verbatim>\<open>/dashboard\<close> and the role \<^verbatim>\<open>dentist\<close> is let
  through.
\<close>

theorem role_restricted_routes:
  "isDentistRoute p \<Longrightarrow>
     middleware p (Some s) (Row ''receptionist'') = Redirect ''/dashboard'' [] \<and>
     middleware p (Some s) (Row ''dentist'') = Next \<and>
     middleware_auth_helpers p (Some s) (Row ''receptionist'') = Inr (Redirect ''/dashboard'' []) \<and>
     middleware_auth_helpers p (Some s) (Row ''dentist'') = Inr Next"
  by (simp add: middleware_def middleware_auth_helpers_def dentist_not_public dentist_not_auth
      dentist_not_root dentist_not_admin includes_arr_def)

theorem role_restricted_routes_witness:
  "isDentistRoute ''/reports'' \<and>
     middleware ''/reports'' (Some (Session ''u1'')) (Row ''receptionist'')
       = Redirect ''/dashboard'' [] \<and>
     middleware ''/reports'' (Some (Session ''u1'')) (Row ''dentist'') = Next"
  using role_restricted_routes [of "''/reports''" "Session ''u1''"]
  by (simp add: isDentistRoute_def some_def dentistRoutes_def)

text \<open>
  C5. On every path under \<^verbatim>\<open>/login\<close> or \<^verbatim>\<open>/register\<close> the request is let through without a
  session and redirected to \<^verbatim>\<open>/dashboard\<close> with one, whatever the profile query would give.
\<close>

theorem auth_only_routes:
  "isAuthRoute p \<Longrightarrow>
     middleware p None q = Next \<and>
     middleware p (Some s) q = Redirect ''/dashboard'' [] \<and>
     middleware_auth_helpers p None q = Inr Next \<and>
     middleware_auth_helpers p (Some s) q = Inr (Redirect ''/dashboard'' [])"
  by (simp add: middleware_def middleware_auth_helpers_def auth_is_public auth_not_root)

theorem auth_only_routes_witness:
  "isAuthRoute ''/login'' \<and>
     middleware ''/login'' None NoRow = Next \<and>
     middleware ''/login'' (Some (Session ''u1'')) (Row ''admin'') = Redirect ''/dashboard'' []"
  using auth_only_routes [of "''/login''" NoRow "Session ''u1''"]
    auth_only_routes [of "''/login''" "Row ''admin''" "Session ''u1''"]
  by (simp add: isAuthRoute_def some_def authRoutes_def)

section \<open>The provider's transitions\<close>

text \<open>
  C6, as the code has it. \<^verbatim>\<open>logout\<close> always ends with \<^verbatim>\<open>loading\<close> false. It clears the user,
  and leaves no error, when \<^verbatim>\<open>signOut\<close> returns without an error; when \<^verbatim>\<open>signOut\<close> returns an
  error or throws, the user stays as it was.
\<close>

theorem logout_outcome:
  "loading (logout s r) = False \<and>
   (r = Resolves None \<longrightarrow> user (logout s r) = None \<and> error (logout s r) = Null) \<and>
   (r \<noteq> Resolves None \<longrightarrow> user (logout s r) = user s)"
proof -
  have l: "loading (logout s r) = False"
    by (simp add: logout_def Let_def)
  have ok: "user (logout s r) = None \<and> error (logout s r) = Null" if "r = Resolves None"
    using that by (simp add: logout_def Let_def AuthService_logout_def truthy_def setError_def)
  have bad: "user (logout s r) = user s" if "r \<noteq> Resolves None"
  proof -
    from that have "truthy (AuthService_logout r)"
      by (simp add: AuthService_logout_truthy)
    then show ?thesis by (simp add: logout_def Let_def)
  qed
  from l ok bad show ?thesis by blast
qed

theorem logout_outcome_witness:
  "user (logout signedIn (Resolves None)) = None \<and>
   user (logout signedIn Rejects) = Some ana \<and>
   user (logout signedIn (Resolves (Some ''constructor''))) = Some ana"
  using logout_outcome [of signedIn "Resolves None"] logout_outcome [of signedIn Rejects]
    logout_outcome [of signedIn "Resolves (Some ''constructor'')"]
  by (simp add: signedIn_def)

text \<open>
  The claim as stated fails: a signed-in dentist logs out, \<^verbatim>\<open>signOut\<close> returns an error, and
  the user is still there afterwards, with \<^verbatim>\<open>loading\<close> false and the error shown.
\<close>

theorem logout_keeps_user_counterexample:
  "logout signedIn (Resolves (Some ''Network request failed''))
     = \<lparr>user = Some ana, loading = False,
        error = Message ''Ha ocurrido un error. Intenta de nuevo'', initialized = True\<rparr>"
  by (simp add: logout_def AuthService_logout_def truthy_def formatAuthError_def errorMessages_def
      objectPrototypeKeys_def setError_def signedIn_def)




text \<open>
  C8. When the registration data pass the local checks, \<^verbatim>\<open>signUp\<close> returns a user without
  an error, and the \<^verbatim>\<open>insert\<close> into \<^verbatim>\<open>profiles\<close> returns an error or throws, the service returns
  no user and a non-empty error; the provider stores that error and leaves its user as it
  was, so a user that was \<^verbatim>\<open>null\<close> stays \<^verbatim>\<open>null\<close>.
\<close>

theorem register_profile_creation_fails:
  assumes "isValidEmail (r_email d)" and "isValidPassword (r_password d)"
    and "r_full_name d \<noteq> []" and "2 \<le> length (trim (r_full_name d))" and "r_clinic_id d \<noteq> []"
    and "signUp = Resolves (Some u, None)"
    and "insertProfile \<noteq> Resolves None"
  shows "fst (AuthService_register d signUp insertProfile deleteUser profiles) = None \<and>
         truthy (snd (AuthService_register d signUp insertProfile deleteUser profiles)) \<and>
         (\<exists>m. snd (AuthService_register d signUp insertProfile deleteUser profiles)
                = Some (Str m) \<and> m \<noteq> [] \<and>
              error (register s d signUp insertProfile deleteUser profiles) = Message m) \<and>
         user (register s d signUp insertProfile deleteUser profiles) = user s \<and>
         (user s = None \<longrightarrow> user (register s d signUp insertProfile deleteUser profiles) = None)"
proof -
  from register_profile_failure [OF assms]
  obtain m where
    "AuthService_register d signUp insertProfile deleteUser profiles = (None, Some (Str m))"
    and "m \<noteq> []"
    by blast
  then show ?thesis
    by (simp add: register_def truthy_def setError_def)
qed

theorem register_profile_creation_fails_witness:
  "isValidEmail (r_email anaData) \<and> isValidPassword (r_password anaData) \<and>
   2 \<le> length (trim (r_full_name anaData)) \<and>
   AuthService_register anaData (Resolves (Some anaIdp, None))
     (Resolves (Some ''permission denied'')) (Resolves ()) (\<lambda>userId. Rejects)
     = (None, Some (Str ''Error al crear perfil de usuario'')) \<and>
   error (register initialState anaData (Resolves (Some anaIdp, None))
     (Resolves (Some ''permission denied'')) (Resolves ()) (\<lambda>userId. Rejects))
     = Message ''Error al crear perfil de usuario'' \<and>
   user (register initialState anaData (Resolves (Some anaIdp, None))
     (Resolves (Some ''permission denied'')) (Resolves ()) (\<lambda>userId. Rejects)) = None"
proof -
  have e: "isValidEmail (r_email anaData)"
    by (simp add: anaData_def isValidEmail_def emailChar_def isSpace_def)
  have p: "isValidPassword (r_password anaData)"
    by (simp add: anaData_def isValidPassword_def passwordChar_def isLower_def isUpper_def
        isDigit_def)
  have n: "2 \<le> length (trim (r_full_name anaData))"
    by (simp add: anaData_def trim_def isSpace_def)
  have c: "r_full_name anaData \<noteq> [] \<and> r_clinic_id anaData \<noteq> []"
    by (simp add: anaData_def)
  have r: "AuthService_register anaData (Resolves (Some anaIdp, None))
     (Resolves (Some ''permission denied'')) (Resolves ()) (\<lambda>userId. Rejects)
     = (None, Some (Str ''Error al crear perfil de usuario''))"
    using e p n c by (simp add: AuthService_register_def)
  from register_profile_creation_fails [of anaData "Resolves (Some anaIdp, None)" anaIdp
     "Resolves (Some ''permission denied'')" "Resolves ()" "\<lambda>userId. Rejects" initialState]
    e p n c r
  show ?thesis by (simp add: initialState_def)
qed

section \<open>Guard and middleware side by side\<close>

text \<open>
  C9, as the code has it. Take a client that has finished loading, whose user is what the
  same session and profile give it: \<^verbatim>\<open>null\<close> when there is no session or no profile is
  resolved, otherwise a user with the resolved role. For every path and every choice of the
  guard's inputs \<^verbatim>\<open>requireAuth\<close> and \<^verbatim>\<open>allowedRoles\<close>, the guard's decision (allow, to the login
  page, to the dashboard) is the middleware's exactly in these cases. Without a session: when
  \<^verbatim>\<open>requireAuth\<close> is true if and only if the path is not public. With a session and a role:
  when the guard redirects to the dashboard (the allowed roles are not empty and lack the
  role, or \<^verbatim>\<open>requireAuth\<close> is false) if and only if the middleware does (the path is under
  \<^verbatim>\<open>/login\<close> or \<^verbatim>\<open>/register\<close>, or is \<^verbatim>\<open>/\<close>, or is under an admin prefix and the role is not
  \<^verbatim>\<open>admin\<close>, or is under a role-restricted prefix and the role is neither \<^verbatim>\<open>admin\<close> nor
  \<^verbatim>\<open>dentist\<close>). With a session and no profile resolved: only when \<^verbatim>\<open>requireAuth\<close> is false and
  the path is neither under \<^verbatim>\<open>/login\<close> or \<^verbatim>\<open>/register\<close> nor \<^verbatim>\<open>/\<close>. The older version of the
  middleware returns what the newer one returns whenever its profile query does not throw.
\<close>

theorem guard_agrees_exactly_when:
  "(guard_decision (AuthGuard requireAuth allowedRoles None False True)
      = middleware_decision (middleware p None q)
    \<longleftrightarrow> (requireAuth \<longleftrightarrow> \<not> isPublicRoute p)) \<and>
   (u_role u = r \<longrightarrow>
      (guard_decision (AuthGuard requireAuth allowedRoles (Some u) False True)
         = middleware_decision (middleware p (Some s) (Row r))
       \<longleftrightarrow> ((allowedRoles \<noteq> [] \<and> r \<notin> set allowedRoles) \<or> \<not> requireAuth
            \<longleftrightarrow> isAuthRoute p \<or> p = ''/'' \<or> (isAdminRoute p \<and> r \<noteq> ''admin'') \<or>
                (isDentistRoute p \<and> r \<notin> {''admin'', ''dentist''})))) \<and>
   (q = NoRow \<or> q = QueryThrows \<longrightarrow>
      (guard_decision (AuthGuard requireAuth allowedRoles None False True)
         = middleware_decision (middleware p (Some s) q)
       \<longleftrightarrow> \<not> requireAuth \<and> \<not> isAuthRoute p \<and> p \<noteq> ''/'')) \<and>
   (q \<noteq> QueryThrows \<longrightarrow>
      middleware_auth_helpers p session q = Inr (middleware p session q))"
proof -
  have anon: "guard_decision (AuthGuard requireAuth allowedRoles None False True)
      = middleware_decision (middleware p None q)
    \<longleftrightarrow> (requireAuth \<longleftrightarrow> \<not> isPublicRoute p)"
    using auth_is_public [of p]
    by (auto simp: AuthGuard_def guard_decision_def middleware_decision_def middleware_def)
  have role: "guard_decision (AuthGuard requireAuth allowedRoles (Some u) False True)
         = middleware_decision (middleware p (Some s) (Row r))
       \<longleftrightarrow> ((allowedRoles \<noteq> [] \<and> r \<notin> set allowedRoles) \<or> \<not> requireAuth
            \<longleftrightarrow> isAuthRoute p \<or> p = ''/'' \<or> (isAdminRoute p \<and> r \<noteq> ''admin'') \<or>
                (isDentistRoute p \<and> r \<notin> {''admin'', ''dentist''}))"
    if "u_role u = r"
    using that auth_is_public [of p] admin_not_public [of p] dentist_not_public [of p]
    by (auto simp: AuthGuard_def guard_decision_def middleware_decision_def middleware_def
        includes_arr_def)
  have lost: "guard_decision (AuthGuard requireAuth allowedRoles None False True)
         = middleware_decision (middleware p (Some s) q)
       \<longleftrightarrow> \<not> requireAuth \<and> \<not> isAuthRoute p \<and> p \<noteq> ''/''"
    if "q = NoRow \<or> q = QueryThrows"
    using that
    by (auto simp: AuthGuard_def guard_decision_def middleware_decision_def middleware_def)
  from anon role lost same_decisions [of q p session] show ?thesis by blast
qed

theorem guard_agrees_exactly_when_witness:
  "guard_decision (DashboardPage (Some ana) False True)
     = middleware_decision (middleware ''/dashboard'' (Some (Session ''u1'')) (Row ''dentist'')) \<and>
   guard_decision (LoginPage (Some ana) False True)
     = middleware_decision (middleware ''/login'' (Some (Session ''u1'')) (Row ''dentist'')) \<and>
   guard_decision (DashboardPage None False True)
     = middleware_decision (middleware ''/dashboard'' None NoRow) \<and>
   guard_decision (DashboardPage None False True)
     \<noteq> middleware_decision (middleware ''/dashboard'' (Some (Session ''u1'')) NoRow) \<and>
   guard_decision (AuthGuard True [] (Some ana) False True)
     \<noteq> middleware_decision (middleware ''/'' (Some (Session ''u1'')) (Row ''dentist'')) \<and>
   middleware_auth_helpers ''/dashboard'' (Some (Session ''u1'')) NoRow
     = Inr (middleware ''/dashboard'' (Some (Session ''u1'')) NoRow)"
proof -
  have r: "u_role ana = ''dentist''"
    by (simp add: ana_def mkAuthUser_def anaProfile_def)
  have d: "\<not> isPublicRoute ''/dashboard'' \<and> \<not> isAdminRoute ''/dashboard'' \<and>
      \<not> isDentistRoute ''/dashboard'' \<and> \<not> isAuthRoute ''/dashboard''"
    by (simp add: isPublicRoute_def isAdminRoute_def isDentistRoute_def isAuthRoute_def some_def
        publicRoutes_def adminRoutes_def dentistRoutes_def authRoutes_def)
  have l: "isAuthRoute ''/login''"
    by (simp add: isAuthRoute_def some_def authRoutes_def)
  note dash = guard_agrees_exactly_when [of True "[]" "''/dashboard''" NoRow ana "''dentist''"
      "Session ''u1''" "Some (Session ''u1'')"]
  note login = guard_agrees_exactly_when [of False "[]" "''/login''" NoRow ana "''dentist''"
      "Session ''u1''" None]
  note root = guard_agrees_exactly_when [of True "[]" "''/''" NoRow ana "''dentist''"
      "Session ''u1''" None]
  have 1: "guard_decision (DashboardPage (Some ana) False True)
     = middleware_decision (middleware ''/dashboard'' (Some (Session ''u1'')) (Row ''dentist''))"
    using dash r d unfolding DashboardPage_def by simp
  have 2: "guard_decision (LoginPage (Some ana) False True)
     = middleware_decision (middleware ''/login'' (Some (Session ''u1'')) (Row ''dentist''))"
    using login r l unfolding LoginPage_def by simp
  have 3: "guard_decision (DashboardPage None False True)
     = middleware_decision (middleware ''/dashboard'' None NoRow)"
    using dash d unfolding DashboardPage_def by simp
  have 4: "guard_decision (DashboardPage None False True)
     \<noteq> middleware_decision (middleware ''/dashboard'' (Some (Session ''u1'')) NoRow)"
    using dash unfolding DashboardPage_def by simp
  have 5: "guard_decision (AuthGuard True [] (Some ana) False True)
     \<noteq> middleware_decision (middleware ''/'' (Some (Session ''u1'')) (Row ''dentist''))"
    using root r by simp
  have 6: "middleware_auth_helpers ''/dashboard'' (Some (Session ''u1'')) NoRow
     = Inr (middleware ''/dashboard'' (Some (Session ''u1'')) NoRow)"
    using dash by simp
  from 1 2 3 4 5 6 show ?thesis by blast
qed

text \<open>
  The claim as stated fails. With a session whose profile query gives no row, the client's
  user is \<^verbatim>\<open>null\<close>, so the dashboard page's guard sends the visitor to the login page, while
  the middleware lets the request to \<^verbatim>\<open>/dashboard\<close> through. On \<^verbatim>\<open>/\<close> and on
  \<^verbatim>\<open>/auth/callback\<close>, with the allowed roles left empty as every page leaves them, neither
  value of \<^verbatim>\<open>requireAuth\<close> agrees with the middleware both with and without a session.
\<close>

theorem guard_middleware_counterexample:
  "getCurrentUser (Resolves (Some anaIdp)) (\<lambda>userId. Resolves (None, None)) = None \<and>
   guard_decision (DashboardPage None False True) = Some RedirectToLogin \<and>
   middleware_decision (middleware ''/dashboard'' (Some (Session ''u1'')) NoRow) = Some Allow \<and>
   u_role ana = ''dentist'' \<and>
   guard_decision (AuthGuard True [] (Some ana) False True) = Some Allow \<and>
   middleware_decision (middleware ''/'' (Some (Session ''u1'')) (Row ''dentist''))
     = Some RedirectToDashboard \<and>
   guard_decision (AuthGuard False [] None False True) = Some Allow \<and>
   middleware_decision (middleware ''/'' None NoRow) = Some RedirectToLogin \<and>
   guard_decision (AuthGuard True [] None False True) = Some RedirectToLogin \<and>
   middleware_decision (middleware ''/auth/callback'' None NoRow) = Some Allow \<and>
   guard_decision (AuthGuard False [] (Some ana) False True) = Some RedirectToDashboard \<and>
   middleware_decision (middleware ''/auth/callback'' (Some (Session ''u1'')) (Row ''dentist''))
     = Some Allow"
  by (simp add: getCurrentUser_def getUserProfile_def DashboardPage_def AuthGuard_def
      guard_decision_def middleware_decision_def middleware_def isAuthRoute_def isPublicRoute_def
      some_def authRoutes_def publicRoutes_def ana_def mkAuthUser_def anaProfile_def)

text \<open>
  C10. When the identity provider reports a user and \<^verbatim>\<open>getUserProfile\<close> finds no profile for
  it, \<^verbatim>\<open>getCurrentUser\<close> returns \<^verbatim>\<open>null\<close>; the provider then starts with no user, and a guard
  that requires authentication sends the visitor to the login page. The middleware, with a
  session and no profile row, lets the request to a protected path other than \<^verbatim>\<open>/\<close> through.
\<close>

theorem getCurrentUser_without_profile:
  "getUserProfile profiles (idp_id u) = None \<Longrightarrow>
     getCurrentUser (Resolves (Some u)) profiles = None \<and>
     user (initializeAuth s (Resolves (Some u)) profiles) = None \<and>
     guard_decision (AuthGuard True roles (user (initializeAuth s (Resolves (Some u)) profiles))
        (loading (initializeAuth s (Resolves (Some u)) profiles)) True) = Some RedirectToLogin \<and>
     (\<not> isPublicRoute p \<and> p \<noteq> ''/'' \<longrightarrow> middleware p (Some sess) NoRow = Next)"
  by (simp add: getCurrentUser_def initializeAuth_def AuthGuard_def guard_decision_def
      middleware_no_profile)

theorem getCurrentUser_without_profile_witness:
  "getUserProfile (\<lambda>userId. Resolves (None, Some ''no rows'')) (idp_id anaIdp) = None \<and>
   getCurrentUser (Resolves (Some anaIdp)) (\<lambda>userId. Resolves (None, Some ''no rows'')) = None \<and>
   user (initializeAuth initialState (Resolves (Some anaIdp))
      (\<lambda>userId. Resolves (None, Some ''no rows''))) = None \<and>
   middleware ''/patients'' (Some (Session ''u1'')) NoRow = Next"
proof -
  have g: "getUserProfile (\<lambda>userId. Resolves (None, Some ''no rows'')) (idp_id anaIdp) = None"
    by (simp add: getUserProfile_def)
  have p: "\<not> isPublicRoute ''/patients''"
    by (simp add: isPublicRoute_def some_def publicRoutes_def)
  from p g
    getCurrentUser_without_profile [OF g, of initialState "[]" "''/patients''" "Session ''u1''"]
  show ?thesis by simp
qed

end
